theory Spec2Isabelle
  imports Main "HOL-Library.Word"
begin

section \<open>The JSON chunker of the prolly tree (go/store/prolly/tree/json_chunker.go)\<close>

text \<open>
  The file \<^verbatim>\<open>json_chunker.go\<close> writes a JSON document as a sequence of leaf blobs and
  hands one \<open>(key, address)\<close> pair per blob to the level-1 chunker of the address map.
  It is embedded here function by function. What the file calls but does not define
  (the scanner's parser, the node store, the interior chunker, the node cursor, the
  hash and the splitter constants, \<^verbatim>\<open>types.MarshallJson\<close>) is a field of the record
  \<open>env\<close> below, so every theorem holds for every implementation of these collaborators
  that meets the hypotheses the theorem names.
\<close>

subsection \<open>Bytes, errors, panics\<close>

type_synonym bytes = "char list"

text \<open>A Go slice is \<^verbatim>\<open>nil\<close> or holds bytes; \<^verbatim>\<open>json_chunker.go\<close> tests for \<^verbatim>\<open>nil\<close>.\<close>

type_synonym slice = "bytes option"

definition bytesOf :: "slice \<Rightarrow> bytes" where
  "bytesOf b = (case b of None \<Rightarrow> [] | Some x \<Rightarrow> x)"

text \<open>Go \<^verbatim>\<open>error\<close> values: \<^verbatim>\<open>io.EOF\<close> and every other error. \<^verbatim>\<open>nil\<close> is \<open>None\<close>.\<close>

datatype error = EOF | Failure string

text \<open>A run-time panic (slice bounds, index out of range) is not an error value.\<close>

datatype 'a outcome = Panic | Return 'a

text \<open>
  \<^verbatim>\<open>b[:n]\<close> and \<^verbatim>\<open>b[n:]\<close>. Slices are modelled without spare capacity, so \<^verbatim>\<open>b[:n]\<close>
  panics as soon as \<open>n\<close> exceeds the length. Slicing \<^verbatim>\<open>nil\<close> at 0 gives \<^verbatim>\<open>nil\<close>.
\<close>

definition sliceTo :: "slice \<Rightarrow> nat \<Rightarrow> slice outcome" where
  "sliceTo b n =
     (if length (bytesOf b) < n then Panic
      else Return (case b of None \<Rightarrow> None | Some x \<Rightarrow> Some (take n x)))"

definition sliceFrom :: "slice \<Rightarrow> nat \<Rightarrow> slice outcome" where
  "sliceFrom b n =
     (if length (bytesOf b) < n then Panic
      else Return (case b of None \<Rightarrow> None | Some x \<Rightarrow> Some (drop n x)))"

subsection \<open>Nodes and documents\<close>

text \<open>
  A \<^verbatim>\<open>Node\<close> wraps its serialized message; \<^verbatim>\<open>Node{}\<close> has none. An address is the
  byte string \<^verbatim>\<open>addr[:]\<close>.
\<close>

datatype Node = Node (msg: bytes)

definition zeroNode :: Node where
  "zeroNode = Node []"

type_synonym addr = bytes

text \<open>
  \<^verbatim>\<open>sql.JSONWrapper\<close>: either an \<^verbatim>\<open>IndexedJsonDocument\<close>, of which only \<^verbatim>\<open>m.Root\<close> is
  read, or any other wrapper, which is marshalled.
\<close>

datatype 'j JSONWrapper = IndexedJsonDocument (Root: Node) | OtherJSON 'j

subsection \<open>The scanner and the cursor\<close>

text \<open>
  \<^verbatim>\<open>JsonScanner\<close> has the three fields the chunker reads and writes. The type of
  \<^verbatim>\<open>jsonLocation\<close> is a parameter \<open>'loc\<close>; its field \<^verbatim>\<open>key\<close> is \<open>locKey\<close> of \<open>env\<close>.
\<close>

record 'loc JsonScanner =
  jsonBuffer :: slice
  currentPath :: 'loc
  valueOffset :: nat

text \<open>
  \<^verbatim>\<open>JsonCursor\<close>: the scanner positioned at the splice point. Its \<^verbatim>\<open>cur\<close> field is a
  pointer to a node cursor; what it points to is part of the collaborator state \<open>'w\<close>.
\<close>

record 'loc JsonCursor =
  jsonScanner :: "'loc JsonScanner"

subsection \<open>The collaborators\<close>

text \<open>
  Everything \<^verbatim>\<open>json_chunker.go\<close> uses and does not define. The node store, the interior
  chunker and the node cursor are reached through pointers and share state (the
  interior chunker writes to the same store and is seeded with the cursor's parent), so
  they act on one state \<open>'w\<close>: each operation takes it and returns it updated.
\<close>

record ('loc, 'j, 'w) env =
  minChunkSize :: "32 word"
  maxChunkSize :: "32 word"
  levelSalt :: "nat \<Rightarrow> 64 word"
  xxHash32 :: "bytes \<Rightarrow> 64 word \<Rightarrow> 32 word"
  weibullCheck :: "32 word \<Rightarrow> 32 word \<Rightarrow> 32 word \<Rightarrow> bool"
  endOfValue :: char
  locKey :: "'loc \<Rightarrow> bytes"
  rootLocation :: 'loc
  getLastPathElement :: "'loc \<Rightarrow> bytes \<times> bool"
  AdvanceToNextLocation :: "'loc JsonScanner \<Rightarrow> error option \<times> 'loc JsonScanner"
  firstElementOrEndOfEmptyValue :: "'loc JsonScanner \<Rightarrow> bool"
  MarshallJson :: "'j \<Rightarrow> error + bytes"
  Serialize :: "bytes list \<Rightarrow> bytes list \<Rightarrow> 64 word list \<Rightarrow> nat \<Rightarrow> bytes"
  NodeFromBytes :: "bytes \<Rightarrow> error + Node"
  Write :: "'w \<Rightarrow> Node \<Rightarrow> (error + addr) \<times> 'w"
  newChunker :: "'w \<Rightarrow> bool \<Rightarrow> nat \<Rightarrow> error option \<times> 'w"
  AddPair :: "'w \<Rightarrow> bytes \<Rightarrow> addr \<Rightarrow> error option \<times> 'w"
  chunkerDone :: "'w \<Rightarrow> (Node \<times> error option) \<times> 'w"
  advance :: "'w \<Rightarrow> error option \<times> 'w"
  Valid :: "'w \<Rightarrow> bool"
  currentValue :: "'w \<Rightarrow> slice"

subsection \<open>The boundary predicate\<close>

text \<open>
  \<^verbatim>\<open>crossesBoundary(key, buf)\<close>. \<^verbatim>\<open>uint32(len(buf))\<close> truncates the length to 32 bits,
  and the comparisons are unsigned.
\<close>

definition crossesBoundary :: "('loc, 'j, 'w) env \<Rightarrow> bytes \<Rightarrow> bytes \<Rightarrow> bool" where
  "crossesBoundary E k buf =
     (let salt = levelSalt E 0;
          thisSize = (of_nat (length buf) :: 32 word)
      in if thisSize < minChunkSize E then False
         else if maxChunkSize E < thisSize then True
         else weibullCheck E thisSize thisSize (xxHash32 E k salt))"

subsection \<open>Scanner operations the chunker calls\<close>

text \<open>
  Modelled from the spec: \<^verbatim>\<open>ScanJsonFromBeginning\<close>, \<^verbatim>\<open>ScanJsonFromMiddle\<close>,
  \<^verbatim>\<open>atEndOfChunk\<close> and \<^verbatim>\<open>skipBytes\<close> are methods of the scanner, which is not in
  \<^verbatim>\<open>json_chunker.go\<close>. The spec (4.1): \<^verbatim>\<open>ScanJsonFromBeginning(buf)\<close> produces an
  empty-path scanner at offset 0; \<^verbatim>\<open>ScanJsonFromMiddle(buf, path)\<close> produces one whose
  path is pre-seeded; \<^verbatim>\<open>atEndOfChunk\<close> is true iff the offset equals the buffer length;
  \<^verbatim>\<open>skipBytes(n)\<close> advances the offset without re-scanning.
\<close>

definition ScanJsonFromBeginning :: "('loc, 'j, 'w) env \<Rightarrow> slice \<Rightarrow> 'loc JsonScanner" where
  "ScanJsonFromBeginning E buf =
     \<lparr>jsonBuffer = buf, currentPath = rootLocation E, valueOffset = 0\<rparr>"

definition ScanJsonFromMiddle :: "slice \<Rightarrow> 'loc \<Rightarrow> 'loc JsonScanner" where
  "ScanJsonFromMiddle buf path = \<lparr>jsonBuffer = buf, currentPath = path, valueOffset = 0\<rparr>"

definition atEndOfChunk :: "'loc JsonScanner \<Rightarrow> bool" where
  "atEndOfChunk s = (valueOffset s = length (bytesOf (jsonBuffer s)))"

definition skipBytes :: "'loc JsonScanner \<Rightarrow> nat \<Rightarrow> 'loc JsonScanner" where
  "skipBytes s n = s\<lparr>valueOffset := valueOffset s + n\<rparr>"

subsection \<open>The chunker\<close>

text \<open>
  \<^verbatim>\<open>JsonChunker\<close>. The Go fields \<^verbatim>\<open>chunker\<close> and \<^verbatim>\<open>ns\<close> are pointers to the interior
  chunker and to the node store: both live in \<open>world\<close>. The field \<open>leaves\<close> is a history
  variable that the Go struct does not have: it lists, in the order of writing, the
  \<open>(key, value)\<close> pairs for which \<^verbatim>\<open>createNewLeafChunk\<close> returned \<^verbatim>\<open>nil\<close>, that is the
  leaves whose blob is in the store and whose address the interior chunker has taken.
  No function reads it.
\<close>

record ('loc, 'w) JsonChunker =
  jCur :: "'loc JsonCursor option"
  jScanner :: "'loc JsonScanner"
  world :: 'w
  leaves :: "(bytes \<times> bytes) list"

text \<open>\<^verbatim>\<open>newEmptyJsonChunker\<close>: a chunker with no cursor, over \<^verbatim>\<open>ScanJsonFromBeginning(nil)\<close>.\<close>

definition newEmptyJsonChunker ::
  "('loc, 'j, 'w) env \<Rightarrow> 'w \<Rightarrow> (error + ('loc, 'w) JsonChunker) \<times> 'w" where
  "newEmptyJsonChunker E w =
     (case newChunker E w False 1 of
        (Some e, w') \<Rightarrow> (Inl e, w')
      | (None, w') \<Rightarrow>
          (Inr \<lparr>jCur = None, jScanner = ScanJsonFromBeginning E None,
                world = w', leaves = []\<rparr>, w'))"

text \<open>
  \<^verbatim>\<open>newJsonChunker\<close>: the interior chunker is seeded with \<^verbatim>\<open>jCur.cur.parent\<close>, the
  buffer is a copy of the cursor's bytes before the splice point (\<^verbatim>\<open>bytes.Clone\<close> keeps
  \<^verbatim>\<open>nil\<close>), and the offset stands at its end.
\<close>

definition newJsonChunker ::
  "('loc, 'j, 'w) env \<Rightarrow> 'w \<Rightarrow> 'loc JsonCursor
     \<Rightarrow> ((error + ('loc, 'w) JsonChunker) \<times> 'w) outcome" where
  "newJsonChunker E w c =
     (case newChunker E w True 1 of
        (Some e, w') \<Rightarrow> Return (Inl e, w')
      | (None, w') \<Rightarrow>
          (case sliceTo (jsonBuffer (jsonScanner c)) (valueOffset (jsonScanner c)) of
             Panic \<Rightarrow> Panic
           | Return initialBytes \<Rightarrow>
               Return (Inr \<lparr>jCur = Some c,
                             jScanner = \<lparr>jsonBuffer = initialBytes,
                                         currentPath = currentPath (jsonScanner c),
                                         valueOffset = length (bytesOf initialBytes)\<rparr>,
                             world = w', leaves = []\<rparr>, w')))"

text \<open>
  \<^verbatim>\<open>appendJsonToBuffer\<close>: a \<^verbatim>\<open>nil\<close> buffer becomes the argument itself. (In Go the buffer
  then shares the argument's array; the model holds the bytes only.)
\<close>

definition appendJsonToBuffer ::
  "('loc, 'w) JsonChunker \<Rightarrow> slice \<Rightarrow> ('loc, 'w) JsonChunker" where
  "appendJsonToBuffer j jsonBytes =
     (case jsonBuffer (jScanner j) of
        None \<Rightarrow> j\<lparr>jScanner := (jScanner j)\<lparr>jsonBuffer := jsonBytes\<rparr>\<rparr>
      | Some b \<Rightarrow> j\<lparr>jScanner := (jScanner j)\<lparr>jsonBuffer := Some (b @ bytesOf jsonBytes)\<rparr>\<rparr>)"

text \<open>\<^verbatim>\<open>appendJsonWithoutSplitting\<close>: append, then skip what was appended.\<close>

definition appendJsonWithoutSplitting ::
  "('loc, 'w) JsonChunker \<Rightarrow> slice \<Rightarrow> ('loc, 'w) JsonChunker" where
  "appendJsonWithoutSplitting j jsonBytes =
     (let j1 = appendJsonToBuffer j jsonBytes
      in j1\<lparr>jScanner := skipBytes (jScanner j1) (length (bytesOf jsonBytes))\<rparr>)"

text \<open>
  \<^verbatim>\<open>writeKey\<close>. \<^verbatim>\<open>fmt.Sprintf(`"%s":`, finalPathElement)\<close> is the element between two
  double quotes (byte 0x22), then a colon.
\<close>

definition quotedKey :: "bytes \<Rightarrow> bytes" where
  "quotedKey finalPathElement = [CHR 0x22] @ finalPathElement @ [CHR 0x22, CHR '':'']"

definition writeKey ::
  "('loc, 'j, 'w) env \<Rightarrow> ('loc, 'w) JsonChunker \<Rightarrow> 'loc \<Rightarrow> ('loc, 'w) JsonChunker" where
  "writeKey E j keyPath =
     (case getLastPathElement E keyPath of
        (finalPathElement, isArray) \<Rightarrow>
          (let isFirstValue = firstElementOrEndOfEmptyValue E (jScanner j);
               j1 = (if \<not> isFirstValue
                     then appendJsonWithoutSplitting j (Some [CHR '','']) else j)
           in if \<not> isArray
              then appendJsonWithoutSplitting j1 (Some (quotedKey finalPathElement))
              else j1))"

text \<open>
  \<^verbatim>\<open>createNewLeafChunk\<close>: serialize the blob, make a node of it, write the node to the
  store, give key and address to the interior chunker. Each of the three fallible
  steps returns its error at once.
\<close>

definition createNewLeafChunk ::
  "('loc, 'j, 'w) env \<Rightarrow> ('loc, 'w) JsonChunker \<Rightarrow> bytes \<Rightarrow> bytes
     \<Rightarrow> error option \<times> ('loc, 'w) JsonChunker" where
  "createNewLeafChunk E j k v =
     (let m = Serialize E [] [v] [1] 0
      in case NodeFromBytes E m of
           Inl e \<Rightarrow> (Some e, j)
         | Inr node \<Rightarrow>
             (case Write E (world j) node of
                (Inl e, w) \<Rightarrow> (Some e, j\<lparr>world := w\<rparr>)
              | (Inr a, w) \<Rightarrow>
                  (case AddPair E w k a of
                     (Some e, w') \<Rightarrow> (Some e, j\<lparr>world := w'\<rparr>)
                   | (None, w') \<Rightarrow>
                       (None, j\<lparr>world := w', leaves := leaves j @ [(k, v)]\<rparr>))))"

text \<open>
  \<^verbatim>\<open>processBuffer\<close>: the loop runs until the scanner answers \<^verbatim>\<open>io.EOF\<close> (any other
  answer, \<^verbatim>\<open>nil\<close> or an error, enters the body). A scanner that never answers \<^verbatim>\<open>io.EOF\<close>
  keeps the loop running: the result is then \<open>None\<close>.
\<close>

partial_function (option) processBuffer ::
  "('loc, 'j, 'w) env \<Rightarrow> ('loc, 'w) JsonChunker
     \<Rightarrow> (error option \<times> ('loc, 'w) JsonChunker) outcome option" where
  "processBuffer E j =
     (case AdvanceToNextLocation E (jScanner j) of
        (r, s) \<Rightarrow>
          if r = Some EOF then Some (Return (None, j\<lparr>jScanner := s\<rparr>))
          else
            (case sliceTo (jsonBuffer s) (valueOffset s) of
               Panic \<Rightarrow> Some Panic
             | Return v \<Rightarrow>
                 if crossesBoundary E (locKey E (currentPath s)) (bytesOf v) then
                   (case createNewLeafChunk E (j\<lparr>jScanner := s\<rparr>)
                           (locKey E (currentPath s)) (bytesOf v) of
                      (Some e, j') \<Rightarrow> Some (Return (Some e, j'))
                    | (None, j') \<Rightarrow>
                        (case (if \<not> atEndOfChunk s
                               then sliceFrom (jsonBuffer s) (valueOffset s)
                               else Return None) of
                           Panic \<Rightarrow> Some Panic
                         | Return newBuffer \<Rightarrow>
                             processBuffer E
                               (j'\<lparr>jScanner := ScanJsonFromMiddle newBuffer (currentPath s)\<rparr>)))
                 else processBuffer E (j\<lparr>jScanner := s\<rparr>)))"

declare processBuffer.simps [code]

subsection \<open>Done\<close>

definition endOfDocumentKey :: "('loc, 'j, 'w) env \<Rightarrow> bytes" where
  "endOfDocumentKey E = [endOfValue E]"

text \<open>
  The two places where \<^verbatim>\<open>Done\<close> writes the final leaf (with no cursor, and when the
  cursor has left the tree) are the same four lines: the remaining buffer becomes a
  leaf under the end-of-document key, and the interior chunker is finalized.
\<close>

definition Done_finalLeaf ::
  "('loc, 'j, 'w) env \<Rightarrow> ('loc, 'w) JsonChunker
     \<Rightarrow> (Node \<times> error option) \<times> ('loc, 'w) JsonChunker" where
  "Done_finalLeaf E j =
     (case createNewLeafChunk E j (endOfDocumentKey E) (bytesOf (jsonBuffer (jScanner j))) of
        (Some e, j') \<Rightarrow> ((zeroNode, Some e), j')
      | (None, j') \<Rightarrow>
          (case chunkerDone E (world j') of (r, w) \<Rightarrow> (r, j'\<lparr>world := w\<rparr>)))"

text \<open>
  The start of the splice branch of \<^verbatim>\<open>Done\<close>: the bytes of the cursor's leaf after the
  splice point, and the comma before them. \<^verbatim>\<open>jsonBuffer[valueOffset:]\<close> panics when the
  offset is beyond the buffer, \<^verbatim>\<open>jsonBytes[0]\<close> when nothing is left.
\<close>

definition Done_spliceStart ::
  "('loc, 'w) JsonChunker \<Rightarrow> 'loc JsonCursor \<Rightarrow> (('loc, 'w) JsonChunker \<times> slice) outcome" where
  "Done_spliceStart j c =
     (let cursorDecoder = jsonScanner c
      in case sliceFrom (jsonBuffer cursorDecoder) (valueOffset cursorDecoder) of
           Panic \<Rightarrow> Panic
         | Return jsonBytes \<Rightarrow>
             (case bytesOf jsonBytes of
                [] \<Rightarrow> Panic
              | b # _ \<Rightarrow>
                  Return (if b \<noteq> CHR ''}'' \<and> b \<noteq> CHR '']'' \<and> b \<noteq> CHR '',''
                          then appendJsonToBuffer j (Some [CHR '',''])
                          else j, jsonBytes)))"

text \<open>
  The loop of the splice branch. The error of \<^verbatim>\<open>processBuffer\<close> is not looked at, and
  neither is the error of the \<^verbatim>\<open>advance\<close> in the branch of the emptied buffer.
\<close>

partial_function (option) Done_loop ::
  "('loc, 'j, 'w) env \<Rightarrow> ('loc, 'w) JsonChunker \<Rightarrow> slice
     \<Rightarrow> ((Node \<times> error option) \<times> ('loc, 'w) JsonChunker) outcome option" where
  "Done_loop E j jsonBytes =
     (case processBuffer E (appendJsonToBuffer j jsonBytes) of
        None \<Rightarrow> None
      | Some Panic \<Rightarrow> Some Panic
      | Some (Return (_, j1)) \<Rightarrow>
          if jsonBuffer (jScanner j1) = None then
            (case advance E (world j1) of
               (_, w) \<Rightarrow>
                 (case chunkerDone E w of (r, w') \<Rightarrow> Some (Return (r, j1\<lparr>world := w'\<rparr>))))
          else
            (case advance E (world j1) of
               (Some e, w) \<Rightarrow> Some (Return ((zeroNode, Some e), j1\<lparr>world := w\<rparr>))
             | (None, w) \<Rightarrow>
                 if \<not> Valid E w then Some (Return (Done_finalLeaf E (j1\<lparr>world := w\<rparr>)))
                 else Done_loop E (j1\<lparr>world := w\<rparr>) (currentValue E w)))"

declare Done_loop.simps [code]

text \<open>\<^verbatim>\<open>Done\<close>.\<close>

definition Done ::
  "('loc, 'j, 'w) env \<Rightarrow> ('loc, 'w) JsonChunker
     \<Rightarrow> ((Node \<times> error option) \<times> ('loc, 'w) JsonChunker) outcome option" where
  "Done E j =
     (case jCur j of
        None \<Rightarrow> Some (Return (Done_finalLeaf E j))
      | Some c \<Rightarrow>
          (case Done_spliceStart j c of
             Panic \<Rightarrow> Some Panic
           | Return (j1, jsonBytes) \<Rightarrow> Done_loop E j1 jsonBytes))"

subsection \<open>SerializeJsonToAddr\<close>

text \<open>
  \<^verbatim>\<open>SerializeJsonToAddr\<close> returns the root or an error (with \<^verbatim>\<open>Node{}\<close>). The model also
  returns the collaborator state and the leaves of the chunker it made, so that
  theorems can speak of them. The value \<^verbatim>\<open>processBuffer\<close> returns is dropped, as in the
  source.
\<close>

definition SerializeJsonToAddr ::
  "('loc, 'j, 'w) env \<Rightarrow> 'w \<Rightarrow> 'j JSONWrapper
     \<Rightarrow> ((error + Node) \<times> 'w \<times> (bytes \<times> bytes) list) outcome option" where
  "SerializeJsonToAddr E w j =
     (case j of
        IndexedJsonDocument root \<Rightarrow> Some (Return (Inr root, w, []))
      | OtherJSON d \<Rightarrow>
          (case MarshallJson E d of
             Inl e \<Rightarrow> Some (Return (Inl e, w, []))
           | Inr jsonBytes \<Rightarrow>
               (case newEmptyJsonChunker E w of
                  (Inl e, w') \<Rightarrow> Some (Return (Inl e, w', []))
                | (Inr jsonChunker, _) \<Rightarrow>
                    (case processBuffer E (appendJsonToBuffer jsonChunker (Some jsonBytes)) of
                       None \<Rightarrow> None
                     | Some Panic \<Rightarrow> Some Panic
                     | Some (Return (_, j1)) \<Rightarrow>
                         (case Done E j1 of
                            None \<Rightarrow> None
                          | Some Panic \<Rightarrow> Some Panic
                          | Some (Return ((node, Some e), j2)) \<Rightarrow>
                              Some (Return (Inl e, world j2, leaves j2))
                          | Some (Return ((node, None), j2)) \<Rightarrow>
                              Some (Return (Inr node, world j2, leaves j2)))))))"

section \<open>Collaborators to run the chunker on\<close>

text \<open>
  A scanner, a node store, an interior chunker and a node cursor, small enough to
  evaluate: the chunker is run on them wherever a theorem is shown at a concrete
  document.
\<close>

subsection \<open>A scanner\<close>

datatype pathStep = ObjectKey bytes | ArrayIndex nat

datatype marker = StartOfValue | EndOfValue

datatype jsonLocation = Location (marker: marker) (steps: "pathStep list")

definition structural :: "char \<Rightarrow> bool" where
  "structural c = (c \<in> set ''[]{},:'')"

definition stringLength :: "bytes \<Rightarrow> nat" where
  "stringLength cs = length (takeWhile (\<lambda>x. x \<noteq> CHR 0x22) cs)"

text \<open>
  Modelled from the spec: \<^verbatim>\<open>AdvanceToNextLocation\<close> of the scanner (4.1), which consumes
  one value stop (a scalar, the opening or closing of a container, or the separator
  between elements), moves the offset just past it, updates the path, and reports
  end-of-input when the buffer is exhausted. \<open>stopLength\<close> is the number of bytes of the
  stop that starts at the front of the unread bytes: a string runs to its closing
  quote (and takes the colon after it when it is the key of a member), a bracket, a
  brace or a comma is one byte, any other scalar runs to the next structural byte.
\<close>

definition stopLength :: "bytes \<Rightarrow> nat" where
  "stopLength rest =
     (case rest of
        [] \<Rightarrow> 0
      | c # cs \<Rightarrow>
          if c = CHR 0x22 then
            (let n = 2 + stringLength cs
             in if n < length rest \<and> rest ! n = CHR '':'' then n + 1 else min n (length rest))
          else if structural c then 1
          else length (takeWhile (\<lambda>x. \<not> structural x) rest))"

fun bumpStep :: "pathStep \<Rightarrow> pathStep" where
  "bumpStep (ArrayIndex i) = ArrayIndex (i + 1)"
| "bumpStep (ObjectKey k) = ObjectKey []"

definition stopPath :: "bytes \<Rightarrow> jsonLocation \<Rightarrow> jsonLocation" where
  "stopPath rest p =
     (case rest of
        [] \<Rightarrow> p
      | c # cs \<Rightarrow>
          if c = CHR ''['' then Location StartOfValue (steps p @ [ArrayIndex 0])
          else if c = CHR ''{'' then Location StartOfValue (steps p @ [ObjectKey []])
          else if c = CHR '']'' \<or> c = CHR ''}'' then Location EndOfValue (butlast (steps p))
          else if c = CHR '','' then
            Location StartOfValue
              (if steps p = [] then [] else butlast (steps p) @ [bumpStep (last (steps p))])
          else if c = CHR 0x22 \<and> 2 + stringLength cs < length rest
                  \<and> rest ! (2 + stringLength cs) = CHR '':'' then
            Location StartOfValue (butlast (steps p) @ [ObjectKey (take (stringLength cs) cs)])
          else Location EndOfValue (steps p))"

definition testAdvance ::
  "jsonLocation JsonScanner \<Rightarrow> error option \<times> jsonLocation JsonScanner" where
  "testAdvance s =
     (let rest = drop (valueOffset s) (bytesOf (jsonBuffer s))
      in if rest = [] then (Some EOF, s)
         else (None, s\<lparr>currentPath := stopPath rest (currentPath s),
                       valueOffset := valueOffset s + stopLength rest\<rparr>))"

text \<open>
  Modelled from the spec: the encoded location (4.2), a marker for start-of-value or
  end-of-value followed by the steps, object keys length-prefixed and array indices
  fixed-width big-endian; the reserved byte 3 alone is end-of-document.
\<close>

fun encodeStep :: "pathStep \<Rightarrow> bytes" where
  "encodeStep (ObjectKey k) = char_of (length k) # k"
| "encodeStep (ArrayIndex i) =
     [char_of (i div 16777216), char_of (i div 65536), char_of (i div 256), char_of i]"

definition encodeLocation :: "jsonLocation \<Rightarrow> bytes" where
  "encodeLocation p =
     (case marker p of StartOfValue \<Rightarrow> CHR 0x00 | EndOfValue \<Rightarrow> CHR 0x03)
       # concat (map encodeStep (steps p))"

text \<open>
  Modelled from the spec: \<^verbatim>\<open>firstElementOrEndOfEmptyValue\<close> is true iff no sibling has
  yet been emitted at the current container; \<^verbatim>\<open>getLastPathElement\<close> gives the last step
  of a path and whether it is an array index.
\<close>

definition testFirstElement :: "jsonLocation JsonScanner \<Rightarrow> bool" where
  "testFirstElement s =
     (marker (currentPath s) = StartOfValue \<and> steps (currentPath s) \<noteq> []
        \<and> last (steps (currentPath s)) \<in> {ArrayIndex 0, ObjectKey []})"

definition testLastPathElement :: "jsonLocation \<Rightarrow> bytes \<times> bool" where
  "testLastPathElement p =
     (if steps p = [] then ([], False)
      else case last (steps p) of ObjectKey k \<Rightarrow> (k, False) | ArrayIndex i \<Rightarrow> ([], True))"

subsection \<open>A store, an interior chunker and a cursor\<close>

text \<open>
  The store keeps the nodes written and addresses a node by its message; it refuses
  the write whose number is \<open>failingWrite\<close>. The cursor walks the leaves of an old
  tree. The interior chunker keeps the pairs it was given; its root is their
  concatenation, followed by the leaves of the old tree from the cursor on.
\<close>

record testWorld =
  blobs :: "Node list"
  writeCalls :: nat
  failingWrite :: "nat option"
  pairsAdded :: "(bytes \<times> addr) list"
  oldLeaves :: "bytes list"
  position :: nat

definition testWrite :: "testWorld \<Rightarrow> Node \<Rightarrow> (error + addr) \<times> testWorld" where
  "testWrite w n =
     (if failingWrite w = Some (writeCalls w)
      then (Inl (Failure ''write refused''), w\<lparr>writeCalls := writeCalls w + 1\<rparr>)
      else (Inr (msg n), w\<lparr>blobs := blobs w @ [n], writeCalls := writeCalls w + 1\<rparr>))"

definition testAddPair :: "testWorld \<Rightarrow> bytes \<Rightarrow> addr \<Rightarrow> error option \<times> testWorld" where
  "testAddPair w k a = (None, w\<lparr>pairsAdded := pairsAdded w @ [(k, a)]\<rparr>)"

definition testChunkerDone :: "testWorld \<Rightarrow> (Node \<times> error option) \<times> testWorld" where
  "testChunkerDone w =
     ((Node (concat (map (\<lambda>(k, a). k @ a) (pairsAdded w))
             @ concat (drop (position w) (oldLeaves w))), None), w)"

definition testCursorAdvance :: "testWorld \<Rightarrow> error option \<times> testWorld" where
  "testCursorAdvance w = (None, w\<lparr>position := position w + 1\<rparr>)"

definition testWorld0 :: testWorld where
  "testWorld0 = \<lparr>blobs = [], writeCalls = 0, failingWrite = None, pairsAdded = [],
                 oldLeaves = [], position = 0\<rparr>"

text \<open>
  The collaborators together, for a minimum and a maximum chunk size. The hash is the
  length of the key plus the salt, and the acceptance test between the two sizes
  passes on an even hash.
\<close>

definition testEnv :: "32 word \<Rightarrow> 32 word \<Rightarrow> (jsonLocation, bytes, testWorld) env" where
  "testEnv mn mx =
     \<lparr>minChunkSize = mn, maxChunkSize = mx,
      levelSalt = (\<lambda>i. of_nat i),
      xxHash32 = (\<lambda>k salt. of_nat (length k) + ucast salt),
      weibullCheck = (\<lambda>size thisSize h. even (unat h)),
      endOfValue = CHR 0x03,
      locKey = encodeLocation,
      rootLocation = Location StartOfValue [],
      getLastPathElement = testLastPathElement,
      AdvanceToNextLocation = testAdvance,
      firstElementOrEndOfEmptyValue = testFirstElement,
      MarshallJson = (\<lambda>d. Inr d),
      Serialize = (\<lambda>ks vs subtrees level. concat vs),
      NodeFromBytes = (\<lambda>m. Inr (Node m)),
      Write = testWrite,
      newChunker = (\<lambda>w hasCursor level. (None, w)),
      AddPair = testAddPair,
      chunkerDone = testChunkerDone,
      advance = testCursorAdvance,
      Valid = (\<lambda>w. position w < length (oldLeaves w)),
      currentValue = (\<lambda>w. Some (oldLeaves w ! position w))\<rparr>"

subsection \<open>Chunkers in the middle of a write\<close>

text \<open>
  The old tree of the document \<^verbatim>\<open>[1,2,3]\<close> has the leaves \<^verbatim>\<open>[1,2,\<close> and \<^verbatim>\<open>3]\<close>. \<open>leafScanner n\<close>
  is the scanner of a cursor on its first leaf at offset \<open>n\<close>, and \<open>spliceChunker written n\<close>
  is a chunker made from that cursor whose buffer holds \<open>written\<close>, all of it scanned.
  \<open>writtenChunker doc\<close> is a chunker with no cursor whose buffer holds \<open>doc\<close>.
\<close>

definition oldTree :: testWorld where
  "oldTree = testWorld0\<lparr>oldLeaves := [''[1,2,'', ''3]''], position := 0\<rparr>"

definition leafScanner :: "nat \<Rightarrow> jsonLocation JsonScanner" where
  "leafScanner n = \<lparr>jsonBuffer = Some ''[1,2,'',
                     currentPath = Location EndOfValue [ArrayIndex 0], valueOffset = n\<rparr>"

definition spliceChunker :: "bytes \<Rightarrow> nat \<Rightarrow> (jsonLocation, testWorld) JsonChunker" where
  "spliceChunker written n =
     \<lparr>jCur = Some \<lparr>jsonScanner = leafScanner n\<rparr>,
      jScanner = \<lparr>jsonBuffer = Some written,
                  currentPath = Location EndOfValue [ArrayIndex 0],
                  valueOffset = length written\<rparr>,
      world = oldTree, leaves = []\<rparr>"

definition writtenChunker :: "bytes \<Rightarrow> (jsonLocation, testWorld) JsonChunker" where
  "writtenChunker doc =
     \<lparr>jCur = None,
      jScanner = \<lparr>jsonBuffer = Some doc, currentPath = Location EndOfValue [],
                  valueOffset = length doc\<rparr>,
      world = testWorld0, leaves = []\<rparr>"


section \<open>What the theorems ask of the scanner\<close>

text \<open>
  The unread part of the chunker's buffer is \<open>buffer\<close>. A scanner makes progress when,
  started inside its buffer, \<^verbatim>\<open>AdvanceToNextLocation\<close> leaves the buffer as it is, keeps
  the offset inside it, and moves the offset forward whenever its answer is not
  \<^verbatim>\<open>io.EOF\<close>. It stops at the end when its answer at the end of the buffer is \<^verbatim>\<open>io.EOF\<close>.
\<close>

definition buffer :: "('loc, 'w) JsonChunker \<Rightarrow> bytes" where
  "buffer j = bytesOf (jsonBuffer (jScanner j))"



section \<open>The boundary predicate decides on the key and the length\<close>

lemma unat_len32: "n < 2 ^ 32 \<Longrightarrow> unat (of_nat n :: 32 word) = n"
  by (simp add: unsigned_of_nat take_bit_nat_eq_self)

text \<open>
  Claim C2, as amended. For every key and every buffer of fewer than \<open>2 ^ 32\<close> bytes,
  \<^verbatim>\<open>crossesBoundary\<close> is false when the length is below \<^verbatim>\<open>minChunkSize\<close>, true when it is
  above \<^verbatim>\<open>maxChunkSize\<close>, and otherwise the result of \<^verbatim>\<open>weibullCheck\<close> on the length and
  the hash \<^verbatim>\<open>xxHash32(key, levelSalt[0])\<close>; and for buffers of any length the decision
  depends on the key and the length of the buffer only. (The source compares
  \<^verbatim>\<open>uint32(len(buf))\<close>, the length modulo \<open>2 ^ 32\<close>.)
\<close>

theorem crossesBoundary_decision:
  "(length buf < 2 ^ 32 \<longrightarrow>
      crossesBoundary E k buf =
        (if length buf < unat (minChunkSize E) then False
         else if unat (maxChunkSize E) < length buf then True
         else weibullCheck E (of_nat (length buf)) (of_nat (length buf))
                (xxHash32 E k (levelSalt E 0))))
   \<and> (\<forall>buf'. length buf' = length buf
         \<longrightarrow> crossesBoundary E k buf' = crossesBoundary E k buf)"
  by (simp add: crossesBoundary_def Let_def word_less_nat_alt unat_len32)

theorem crossesBoundary_decision_witness:
  "length ''abc'' < (2::nat) ^ 32
   \<and> crossesBoundary (testEnv 2 4) [] ''abc'' =
       weibullCheck (testEnv 2 4) 3 3 (xxHash32 (testEnv 2 4) [] (levelSalt (testEnv 2 4) 0))
   \<and> crossesBoundary (testEnv 2 4) [] ''xyz'' = crossesBoundary (testEnv 2 4) [] ''abc''"
  using crossesBoundary_decision [of "''abc''" "testEnv 2 4" "[]"]
  by (simp add: testEnv_def)

text \<open>
  The claim as stated, for every length, fails at a buffer of \<open>2 ^ 32\<close> bytes: its
  length is above the maximum, \<^verbatim>\<open>uint32(len(buf))\<close> is 0, below the minimum, and the
  answer is false.
\<close>

theorem crossesBoundary_wraps_counterexample:
  "unat (maxChunkSize (testEnv 512 16384)) < length (replicate 4294967296 (CHR ''a''))
   \<and> \<not> crossesBoundary (testEnv 512 16384) [] (replicate 4294967296 (CHR ''a''))"
  by (simp add: crossesBoundary_def testEnv_def)

section \<open>One run of processBuffer\<close>

lemma createNewLeafChunk_effect:
  "createNewLeafChunk E j k v = (e, j') \<Longrightarrow>
     jScanner j' = jScanner j \<and> jCur j' = jCur j
     \<and> leaves j' = (if e = None then leaves j @ [(k, v)] else leaves j)"
  by (auto simp: createNewLeafChunk_def Let_def split: sum.splits prod.splits option.splits)



lemma sliceFrom_inside:
  "n \<le> length (bytesOf b) \<Longrightarrow>
     \<exists>v. sliceFrom b n = Return v \<and> bytesOf v = drop n (bytesOf b) \<and> (v = None \<longleftrightarrow> b = None)"
  by (cases b) (simp_all add: sliceFrom_def bytesOf_def)


section \<open>Running the chunker on the collaborators\<close>






lemma testEnv_fields:
  "minChunkSize (testEnv mn mx) = mn"
  "maxChunkSize (testEnv mn mx) = mx"
  "levelSalt (testEnv mn mx) = (\<lambda>i. of_nat i)"
  "xxHash32 (testEnv mn mx) = (\<lambda>k salt. of_nat (length k) + ucast salt)"
  "weibullCheck (testEnv mn mx) = (\<lambda>size thisSize h. even (unat h))"
  "endOfValue (testEnv mn mx) = CHR 0x03"
  "locKey (testEnv mn mx) = encodeLocation"
  "rootLocation (testEnv mn mx) = Location StartOfValue []"
  "getLastPathElement (testEnv mn mx) = testLastPathElement"
  "AdvanceToNextLocation (testEnv mn mx) = testAdvance"
  "firstElementOrEndOfEmptyValue (testEnv mn mx) = testFirstElement"
  "MarshallJson (testEnv mn mx) = (\<lambda>d. Inr d)"
  "Serialize (testEnv mn mx) = (\<lambda>ks vs subtrees level. concat vs)"
  "NodeFromBytes (testEnv mn mx) = (\<lambda>m. Inr (Node m))"
  "Write (testEnv mn mx) = testWrite"
  "newChunker (testEnv mn mx) = (\<lambda>w hasCursor level. (None, w))"
  "AddPair (testEnv mn mx) = testAddPair"
  "chunkerDone (testEnv mn mx) = testChunkerDone"
  "advance (testEnv mn mx) = testCursorAdvance"
  "Valid (testEnv mn mx) = (\<lambda>w. position w < length (oldLeaves w))"
  "currentValue (testEnv mn mx) = (\<lambda>w. Some (oldLeaves w ! position w))"
  by (simp_all add: testEnv_def)

lemmas run_defs =
  testEnv_fields newEmptyJsonChunker_def ScanJsonFromBeginning_def
  appendJsonToBuffer_def bytesOf_def testAdvance_def Let_def stopLength_def stopPath_def
  structural_def stringLength_def sliceTo_def sliceFrom_def crossesBoundary_def
  encodeLocation_def createNewLeafChunk_def testWrite_def testAddPair_def testWorld0_def
  atEndOfChunk_def ScanJsonFromMiddle_def Done_def Done_finalLeaf_def endOfDocumentKey_def
  testChunkerDone_def char_of_def bit_iff_odd








section \<open>A full write\<close>









text \<open>
  Claim C5 fails on the code: \<^verbatim>\<open>SerializeJsonToAddr\<close> drops the error that
  \<^verbatim>\<open>processBuffer\<close> returns. On a store that refuses its first write, with a minimum of
  2 and a maximum of 4 bytes, \<^verbatim>\<open>processBuffer\<close> on the document \<^verbatim>\<open>[1,2,3]\<close> returns the
  error of the refused write of the leaf \<^verbatim>\<open>[1,2,\<close>, and \<^verbatim>\<open>SerializeJsonToAddr\<close> returns a
  root with no error: \<^verbatim>\<open>Done\<close> has written the whole document as the final leaf.
\<close>

theorem SerializeJsonToAddr_drops_write_error:
  "fst (Write (testEnv 2 4) (testWorld0\<lparr>failingWrite := Some 0\<rparr>) (Node ''[1,2,''))
     = Inl (Failure ''write refused'')
   \<and> map_option (map_outcome fst)
        (processBuffer (testEnv 2 4)
          (appendJsonToBuffer
             \<lparr>jCur = None, jScanner = ScanJsonFromBeginning (testEnv 2 4) None,
              world = testWorld0\<lparr>failingWrite := Some 0\<rparr>, leaves = []\<rparr>
             (Some ''[1,2,3]'')))
     = Some (Return (Some (Failure ''write refused'')))
   \<and> SerializeJsonToAddr (testEnv 2 4) (testWorld0\<lparr>failingWrite := Some 0\<rparr>)
         (OtherJSON ''[1,2,3]'')
     = Some (Return (Inr (Node ([CHR 0x03] @ ''[1,2,3]'')),
         \<lparr>blobs = [Node ''[1,2,3]''], writeCalls = 2, failingWrite = Some 0,
          pairsAdded = [([CHR 0x03], ''[1,2,3]'')], oldLeaves = [], position = 0\<rparr>,
         [([CHR 0x03], ''[1,2,3]'')]))"
  by (simp add: SerializeJsonToAddr_def processBuffer.simps run_defs)

section \<open>writeKey\<close>

text \<open>
  Claim C6. For every path, \<^verbatim>\<open>writeKey\<close> appends to the buffer a comma exactly when
  \<^verbatim>\<open>firstElementOrEndOfEmptyValue\<close> is false, and then the key between double quotes and
  a colon exactly when the last path element is not an array index; it moves the
  scanner's offset forward by the number of bytes appended, so that none of them is
  scanned, and changes nothing else: no leaf is written and the path stays.
\<close>

theorem writeKey_appends:
  "buffer (writeKey E j keyPath) =
     buffer j
     @ (if firstElementOrEndOfEmptyValue E (jScanner j) then [] else [CHR '',''])
     @ (if snd (getLastPathElement E keyPath) then []
        else [CHR 0x22] @ fst (getLastPathElement E keyPath) @ [CHR 0x22, CHR '':''])
   \<and> valueOffset (jScanner (writeKey E j keyPath)) =
       valueOffset (jScanner j)
       + length ((if firstElementOrEndOfEmptyValue E (jScanner j) then [] else [CHR '',''])
           @ (if snd (getLastPathElement E keyPath) then []
              else [CHR 0x22] @ fst (getLastPathElement E keyPath) @ [CHR 0x22, CHR '':'']))
   \<and> currentPath (jScanner (writeKey E j keyPath)) = currentPath (jScanner j)
   \<and> world (writeKey E j keyPath) = world j
   \<and> leaves (writeKey E j keyPath) = leaves j
   \<and> jCur (writeKey E j keyPath) = jCur j"
  by (cases "getLastPathElement E keyPath"; cases "jsonBuffer (jScanner j)")
     (simp_all add: writeKey_def appendJsonWithoutSplitting_def appendJsonToBuffer_def
        skipBytes_def quotedKey_def buffer_def bytesOf_def Let_def)

theorem writeKey_appends_example:
  "buffer (writeKey (testEnv 2 4) (spliceChunker ''[1'' 2) (Location StartOfValue [ArrayIndex 1]))
     = ''[1,''
   \<and> valueOffset (jScanner (writeKey (testEnv 2 4) (spliceChunker ''[1'' 2)
         (Location StartOfValue [ArrayIndex 1]))) = 3
   \<and> buffer (writeKey (testEnv 2 4)
        ((writtenChunker ''{'')\<lparr>jScanner := (jScanner (writtenChunker ''{''))
            \<lparr>currentPath := Location StartOfValue [ObjectKey []]\<rparr>\<rparr>)
        (Location StartOfValue [ObjectKey ''b'']))
     = ''{'' @ [CHR 0x22] @ ''b'' @ [CHR 0x22, CHR '':'']"
  using writeKey_appends [of "testEnv 2 4" "spliceChunker ''[1'' 2"
          "Location StartOfValue [ArrayIndex 1]"]
        writeKey_appends [of "testEnv 2 4"
          "(writtenChunker ''{'')\<lparr>jScanner := (jScanner (writtenChunker ''{''))
              \<lparr>currentPath := Location StartOfValue [ObjectKey []]\<rparr>\<rparr>"
          "Location StartOfValue [ObjectKey ''b'']"]
  by (simp add: testEnv_fields testFirstElement_def testLastPathElement_def spliceChunker_def
        writtenChunker_def buffer_def bytesOf_def)

section \<open>An indexed document is not written again\<close>

text \<open>
  Claim C9. For an \<^verbatim>\<open>IndexedJsonDocument\<close>, \<^verbatim>\<open>SerializeJsonToAddr\<close> returns the root of the
  document's own tree, whatever the collaborators are: nothing is marshalled, the
  store is left as it was and no leaf is committed.
\<close>

theorem SerializeJsonToAddr_indexed_document:
  "SerializeJsonToAddr E w (IndexedJsonDocument root) = Some (Return (Inr root, w, []))"
  by (simp add: SerializeJsonToAddr_def)

section \<open>Done\<close>

text \<open>
  Claim C7. With no cursor, \<^verbatim>\<open>Done\<close> calls \<^verbatim>\<open>createNewLeafChunk\<close> once, on the
  end-of-document key and the whole remaining buffer. When the call returns \<^verbatim>\<open>nil\<close> the
  buffer has become one more leaf under that key and \<^verbatim>\<open>Done\<close> returns what the interior
  chunker's \<^verbatim>\<open>Done\<close> returns; when it returns an error, \<^verbatim>\<open>Done\<close> returns that error and
  \<^verbatim>\<open>Node{}\<close>.
\<close>

theorem Done_without_cursor:
  assumes "jCur j = None"
  shows "\<exists>e j'. createNewLeafChunk E j [endOfValue E] (buffer j) = (e, j')
           \<and> leaves j' = (if e = None then leaves j @ [([endOfValue E], buffer j)] else leaves j)
           \<and> Done E j =
               Some (Return
                 (case e of
                    Some err \<Rightarrow> ((zeroNode, Some err), j')
                  | None \<Rightarrow> (fst (chunkerDone E (world j')),
                             j'\<lparr>world := snd (chunkerDone E (world j'))\<rparr>)))"
proof -
  obtain e j' where leaf: "createNewLeafChunk E j [endOfValue E] (buffer j) = (e, j')"
    by (cases "createNewLeafChunk E j [endOfValue E] (buffer j)")
  from createNewLeafChunk_effect [OF leaf]
  have "leaves j' = (if e = None then leaves j @ [([endOfValue E], buffer j)] else leaves j)"
    by simp
  moreover have "Done E j =
      Some (Return
        (case e of
           Some err \<Rightarrow> ((zeroNode, Some err), j')
         | None \<Rightarrow> (fst (chunkerDone E (world j')),
                    j'\<lparr>world := snd (chunkerDone E (world j'))\<rparr>)))"
    using assms leaf
    by (simp add: Done_def Done_finalLeaf_def endOfDocumentKey_def buffer_def
          split: option.split prod.split)
  ultimately show ?thesis using leaf by blast
qed

theorem Done_without_cursor_witness:
  "jCur (writtenChunker ''{}'') = None
   \<and> Done (testEnv 2 4) (writtenChunker ''{}'') =
       Some (Return ((Node ([CHR 0x03] @ ''{}''), None),
         (writtenChunker ''{}'')
           \<lparr>world := testWorld0\<lparr>blobs := [Node ''{}''], writeCalls := 1,
                                 pairsAdded := [([CHR 0x03], ''{}'')]\<rparr>,
            leaves := [([CHR 0x03], ''{}'')]\<rparr>))"
proof -
  have h: "jCur (writtenChunker ''{}'') = None"
    by (simp add: writtenChunker_def)
  let ?J = "(writtenChunker ''{}'')
           \<lparr>world := testWorld0\<lparr>blobs := [Node ''{}''], writeCalls := 1,
                                 pairsAdded := [([CHR 0x03], ''{}'')]\<rparr>,
            leaves := [([CHR 0x03], ''{}'')]\<rparr>"
  have leaf: "createNewLeafChunk (testEnv 2 4) (writtenChunker ''{}'')
                [endOfValue (testEnv 2 4)] (buffer (writtenChunker ''{}'')) = (None, ?J)"
    by (simp add: createNewLeafChunk_def testEnv_fields testWrite_def testAddPair_def
          writtenChunker_def buffer_def bytesOf_def testWorld0_def Let_def)
  from Done_without_cursor [OF h, of "testEnv 2 4"] obtain e j' where
    l: "createNewLeafChunk (testEnv 2 4) (writtenChunker ''{}'')
          [endOfValue (testEnv 2 4)] (buffer (writtenChunker ''{}'')) = (e, j')"
    and d: "Done (testEnv 2 4) (writtenChunker ''{}'') =
               Some (Return
                 (case e of
                    Some err \<Rightarrow> ((zeroNode, Some err), j')
                  | None \<Rightarrow> (fst (chunkerDone (testEnv 2 4) (world j')),
                             j'\<lparr>world := snd (chunkerDone (testEnv 2 4) (world j'))\<rparr>)))"
    by (elim exE conjE) (rule that)
  from l leaf have e: "e = None" and j': "j' = ?J"
    by simp_all
  have "Done (testEnv 2 4) (writtenChunker ''{}'') = Some (Return ((Node ([CHR 0x03] @ ''{}''), None), ?J))"
    unfolding d e j'
    by (simp add: testEnv_fields testChunkerDone_def writtenChunker_def testWorld0_def)
  with h show ?thesis by simp
qed

text \<open>
  Claim C8. With a cursor whose splice point is inside its leaf, \<^verbatim>\<open>Done\<close> starts its loop
  on the bytes of the leaf after the splice point, and a comma has been appended to
  the buffer exactly when the first of those bytes is none of \<^verbatim>\<open>}\<close>, \<^verbatim>\<open>]\<close> and \<^verbatim>\<open>,\<close>. The
  comma is appended to be scanned: the offset stays.
\<close>

theorem Done_splice_comma:
  assumes "jCur j = Some c"
    and "valueOffset (jsonScanner c) < length (bytesOf (jsonBuffer (jsonScanner c)))"
  shows "\<exists>j1 jsonBytes.
           Done_spliceStart j c = Return (j1, jsonBytes)
           \<and> Done E j = Done_loop E j1 jsonBytes
           \<and> bytesOf jsonBytes
               = drop (valueOffset (jsonScanner c)) (bytesOf (jsonBuffer (jsonScanner c)))
           \<and> buffer j1 =
               buffer j
               @ (if bytesOf (jsonBuffer (jsonScanner c)) ! valueOffset (jsonScanner c)
                       \<in> {CHR ''}'', CHR '']'', CHR '',''}
                  then [] else [CHR '',''])
           \<and> valueOffset (jScanner j1) = valueOffset (jScanner j)"
proof -
  let ?buf = "bytesOf (jsonBuffer (jsonScanner c))"
  let ?off = "valueOffset (jsonScanner c)"
  from assms(2) obtain jsonBytes where
    sl: "sliceFrom (jsonBuffer (jsonScanner c)) ?off = Return jsonBytes"
    and bs: "bytesOf jsonBytes = drop ?off ?buf"
    using sliceFrom_inside [of ?off "jsonBuffer (jsonScanner c)"] by auto
  from assms(2) have hd: "drop ?off ?buf = ?buf ! ?off # drop (Suc ?off) ?buf"
    by (simp add: Cons_nth_drop_Suc)
  let ?j1 = "if ?buf ! ?off \<noteq> CHR ''}'' \<and> ?buf ! ?off \<noteq> CHR '']'' \<and> ?buf ! ?off \<noteq> CHR '',''
             then appendJsonToBuffer j (Some [CHR '','']) else j"
  have start: "Done_spliceStart j c = Return (?j1, jsonBytes)"
    using sl bs hd by (simp add: Done_spliceStart_def Let_def)
  have "Done E j = Done_loop E ?j1 jsonBytes"
    using assms(1) start by (simp add: Done_def)
  moreover have "buffer ?j1 = buffer j
               @ (if ?buf ! ?off \<in> {CHR ''}'', CHR '']'', CHR '',''} then [] else [CHR '',''])"
    by (cases "jsonBuffer (jScanner j)")
       (simp_all add: appendJsonToBuffer_def buffer_def bytesOf_def)
  moreover have "valueOffset (jScanner ?j1) = valueOffset (jScanner j)"
    by (cases "jsonBuffer (jScanner j)") (simp_all add: appendJsonToBuffer_def)
  ultimately show ?thesis using start bs by blast
qed

theorem Done_splice_comma_witness:
  "jCur (spliceChunker ''[9'' 1) = Some \<lparr>jsonScanner = leafScanner 1\<rparr>
   \<and> valueOffset (leafScanner 1) < length (bytesOf (jsonBuffer (leafScanner 1)))
   \<and> (\<exists>j1. Done_spliceStart (spliceChunker ''[9'' 1) \<lparr>jsonScanner = leafScanner 1\<rparr>
              = Return (j1, Some ''1,2,'')
          \<and> buffer j1 = ''[9,'')
   \<and> jCur (spliceChunker ''[7'' 2) = Some \<lparr>jsonScanner = leafScanner 2\<rparr>
   \<and> valueOffset (leafScanner 2) < length (bytesOf (jsonBuffer (leafScanner 2)))
   \<and> (\<exists>j1. Done_spliceStart (spliceChunker ''[7'' 2) \<lparr>jsonScanner = leafScanner 2\<rparr>
              = Return (j1, Some '',2,'')
          \<and> buffer j1 = ''[7'')"
proof -
  have a1: "jCur (spliceChunker ''[9'' 1) = Some \<lparr>jsonScanner = leafScanner 1\<rparr>"
    and b1: "jCur (spliceChunker ''[7'' 2) = Some \<lparr>jsonScanner = leafScanner 2\<rparr>"
    by (simp_all add: spliceChunker_def)
  have a2: "valueOffset (jsonScanner \<lparr>jsonScanner = leafScanner 1\<rparr>)
              < length (bytesOf (jsonBuffer (jsonScanner \<lparr>jsonScanner = leafScanner 1\<rparr>)))"
    and b2: "valueOffset (jsonScanner \<lparr>jsonScanner = leafScanner 2\<rparr>)
              < length (bytesOf (jsonBuffer (jsonScanner \<lparr>jsonScanner = leafScanner 2\<rparr>)))"
    by (simp_all add: leafScanner_def bytesOf_def)
  from Done_splice_comma [OF a1 a2, of "testEnv 2 4"] obtain j1 jb where
    st1: "Done_spliceStart (spliceChunker ''[9'' 1) \<lparr>jsonScanner = leafScanner 1\<rparr>
            = Return (j1, jb)"
    and by1: "bytesOf jb = drop (valueOffset (jsonScanner \<lparr>jsonScanner = leafScanner 1\<rparr>))
                 (bytesOf (jsonBuffer (jsonScanner \<lparr>jsonScanner = leafScanner 1\<rparr>)))"
    and bf1: "buffer j1 = buffer (spliceChunker ''[9'' 1)
               @ (if bytesOf (jsonBuffer (jsonScanner \<lparr>jsonScanner = leafScanner 1\<rparr>))
                       ! valueOffset (jsonScanner \<lparr>jsonScanner = leafScanner 1\<rparr>)
                       \<in> {CHR ''}'', CHR '']'', CHR '',''}
                  then [] else [CHR '',''])"
    by (elim exE conjE) (rule that)
  from Done_splice_comma [OF b1 b2, of "testEnv 2 4"] obtain j2 jb2 where
    st2: "Done_spliceStart (spliceChunker ''[7'' 2) \<lparr>jsonScanner = leafScanner 2\<rparr>
            = Return (j2, jb2)"
    and by2: "bytesOf jb2 = drop (valueOffset (jsonScanner \<lparr>jsonScanner = leafScanner 2\<rparr>))
                 (bytesOf (jsonBuffer (jsonScanner \<lparr>jsonScanner = leafScanner 2\<rparr>)))"
    and bf2: "buffer j2 = buffer (spliceChunker ''[7'' 2)
               @ (if bytesOf (jsonBuffer (jsonScanner \<lparr>jsonScanner = leafScanner 2\<rparr>))
                       ! valueOffset (jsonScanner \<lparr>jsonScanner = leafScanner 2\<rparr>)
                       \<in> {CHR ''}'', CHR '']'', CHR '',''}
                  then [] else [CHR '',''])"
    by (elim exE conjE) (rule that)
  have n1: "jb \<noteq> None" and n2: "jb2 \<noteq> None"
    using st1 st2
    by (auto simp: Done_spliceStart_def Let_def sliceFrom_def leafScanner_def bytesOf_def
          split: if_splits list.splits)
  have jb: "jb = Some ''1,2,''"
    using by1 n1 by (cases jb) (simp_all add: leafScanner_def bytesOf_def)
  have jb2: "jb2 = Some '',2,''"
    using by2 n2 by (cases jb2) (simp_all add: leafScanner_def bytesOf_def)
  have c1: "buffer j1 = ''[9,''"
    unfolding bf1 by (simp add: spliceChunker_def leafScanner_def buffer_def bytesOf_def)
  have c2: "buffer j2 = ''[7''"
    unfolding bf2 by (simp add: spliceChunker_def leafScanner_def buffer_def bytesOf_def)
  have "\<exists>j1. Done_spliceStart (spliceChunker ''[9'' 1) \<lparr>jsonScanner = leafScanner 1\<rparr>
              = Return (j1, Some ''1,2,'')
          \<and> buffer j1 = ''[9,''"
    using st1 c1 unfolding jb by - (rule exI [of _ j1], intro conjI; assumption)
  moreover have "\<exists>j1. Done_spliceStart (spliceChunker ''[7'' 2) \<lparr>jsonScanner = leafScanner 2\<rparr>
              = Return (j1, Some '',2,'')
          \<and> buffer j1 = ''[7''"
    using st2 c2 unfolding jb2 by - (rule exI [of _ j2], intro conjI; assumption)
  moreover have "valueOffset (leafScanner 1) < length (bytesOf (jsonBuffer (leafScanner 1)))"
    "valueOffset (leafScanner 2) < length (bytesOf (jsonBuffer (leafScanner 2)))"
    by (simp_all add: leafScanner_def bytesOf_def)
  ultimately show ?thesis
    using a1 b1 by - (intro conjI; assumption)
qed

text \<open>
  Claim C10. With a cursor, \<^verbatim>\<open>Done\<close> reads the first byte after the splice point with
  no check of the length: the start of the splice branch panics exactly when the
  offset of the cursor's scanner is not below the length of its buffer, and then
  \<^verbatim>\<open>Done\<close> panics.
\<close>

theorem Done_splice_first_byte:
  assumes "jCur j = Some c"
  shows "(Done_spliceStart j c = Panic) =
           (length (bytesOf (jsonBuffer (jsonScanner c))) \<le> valueOffset (jsonScanner c))
         \<and> (length (bytesOf (jsonBuffer (jsonScanner c))) \<le> valueOffset (jsonScanner c)
              \<longrightarrow> Done E j = Some Panic)"
proof -
  let ?buf = "bytesOf (jsonBuffer (jsonScanner c))"
  let ?off = "valueOffset (jsonScanner c)"
  have iff: "(Done_spliceStart j c = Panic) = (length ?buf \<le> ?off)"
  proof (cases "?off \<le> length ?buf")
    case False
    then show ?thesis by (simp add: Done_spliceStart_def sliceFrom_def)
  next
    case True
    then obtain jsonBytes where
      sl: "sliceFrom (jsonBuffer (jsonScanner c)) ?off = Return jsonBytes"
      and bs: "bytesOf jsonBytes = drop ?off ?buf"
      using sliceFrom_inside [of ?off "jsonBuffer (jsonScanner c)"] by auto
    show ?thesis
      using sl bs True by (auto simp: Done_spliceStart_def Let_def split: list.splits)
  qed
  then show ?thesis using assms by (auto simp: Done_def)
qed

lemma spliceChunker_constructed:
  "newJsonChunker (testEnv 2 4) oldTree \<lparr>jsonScanner = leafScanner 5\<rparr>
     = Return (Inr (spliceChunker ''[1,2,'' 5), oldTree)"
  by (simp add: newJsonChunker_def testEnv_fields sliceTo_def bytesOf_def leafScanner_def
        spliceChunker_def)

theorem Done_splice_first_byte_witness:
  "jCur (spliceChunker ''[1,2,'' 5) = Some \<lparr>jsonScanner = leafScanner 5\<rparr>
   \<and> newJsonChunker (testEnv 2 4) oldTree \<lparr>jsonScanner = leafScanner 5\<rparr>
       = Return (Inr (spliceChunker ''[1,2,'' 5), oldTree)
   \<and> Done_spliceStart (spliceChunker ''[1,2,'' 5) \<lparr>jsonScanner = leafScanner 5\<rparr> = Panic
   \<and> Done (testEnv 2 4) (spliceChunker ''[1,2,'' 5) = Some Panic"
proof -
  have h: "jCur (spliceChunker ''[1,2,'' 5) = Some \<lparr>jsonScanner = leafScanner 5\<rparr>"
    by (simp add: spliceChunker_def)
  have len: "length (bytesOf (jsonBuffer (jsonScanner \<lparr>jsonScanner = leafScanner 5\<rparr>)))
               \<le> valueOffset (jsonScanner \<lparr>jsonScanner = leafScanner 5\<rparr>)"
    by (simp add: leafScanner_def bytesOf_def)
  from Done_splice_first_byte [OF h, of "testEnv 2 4"] len h spliceChunker_constructed
  show ?thesis by simp
qed

section \<open>Re-synchronization\<close>

text \<open>
  In \<^verbatim>\<open>Done\<close> the buffer is never \<^verbatim>\<open>nil\<close> when \<^verbatim>\<open>processBuffer\<close> starts: the first round
  appends at least one byte, and a later round starts from a buffer that was not \<^verbatim>\<open>nil\<close>.
\<close>

lemma Done_spliceStart_not_nil:
  "Done_spliceStart j c = Return (j1, jsonBytes) \<Longrightarrow>
     jsonBuffer (jScanner (appendJsonToBuffer j1 jsonBytes)) \<noteq> None"
  by (cases "jsonBuffer (jScanner j)"; cases jsonBytes)
     (auto simp: Done_spliceStart_def Let_def sliceFrom_def appendJsonToBuffer_def bytesOf_def
        split: if_splits list.splits option.splits)

lemma appendJsonToBuffer_not_nil:
  "jsonBuffer (jScanner j) \<noteq> None \<Longrightarrow>
     jsonBuffer (jScanner (appendJsonToBuffer j jsonBytes)) \<noteq> None"
  by (auto simp: appendJsonToBuffer_def)




end
